theory Spec2Isabelle
  imports Complex_Main "HOL-Library.Sublist"
begin

section \<open>Python values, exceptions and sequencing\<close>

text \<open>
  The exceptions the widget code distinguishes. \<open>ValueError\<close> stands for the class and its
  subclasses (what \<^verbatim>\<open>except ValueError\<close> catches), \<open>OtherException\<close> for every other
  subclass of \<^verbatim>\<open>Exception\<close>.
\<close>

datatype exn = ValueError | IndexError | AttributeError | OtherException

text \<open>The subscript \<^verbatim>\<open>xs[i]\<close> of a Python list: an index from \<open>0\<close> reads from the front, one
  from \<open>-1\<close> downwards reads from the back, and every other index raises \<^verbatim>\<open>IndexError\<close>.\<close>

definition py_getitem :: "'a list \<Rightarrow> int \<Rightarrow> exn + 'a" where
  "py_getitem xs i =
     (if 0 \<le> i \<and> i < int (length xs) then Inr (xs ! nat i)
      else if i < 0 \<and> - int (length xs) \<le> i then Inr (xs ! nat (int (length xs) + i))
      else Inl IndexError)"

text \<open>Python floats are idealised as reals. \<^verbatim>\<open>round(x)\<close> on a float rounds to the nearest
  integer, a tie going to the even neighbour.\<close>

definition py_round :: "real \<Rightarrow> int" where
  "py_round x =
     (let f = \<lfloor>x\<rfloor>; d = x - of_int f
      in if d < 1 / 2 then f else if 1 / 2 < d then f + 1 else if even f then f else f + 1)"

definition digit :: "nat \<Rightarrow> char" where
  "digit d = ''0123456789'' ! (d mod 10)"

fun decimal :: "nat \<Rightarrow> string" where
  "decimal n = (if n < 10 then [digit n] else decimal (n div 10) @ [digit (n mod 10)])"

text \<open>\<^verbatim>\<open>'%.3f' % x\<close>: the value correctly rounded (ties to even) to three decimals, a minus
  sign for a negative argument, at least one digit before the point.\<close>

definition format_3f :: "real \<Rightarrow> string" where
  "format_3f x =
     (let n = nat (py_round (\<bar>x\<bar> * 1000)); k = n mod 1000
      in (if x < 0 then ''-'' else '''') @ decimal (n div 1000) @ ''.'' @
         [digit (k div 100), digit (k div 10 mod 10), digit (k mod 10)])"

text \<open>A statement of the widget code maps a state to the state it leaves behind together with
  the exception it raised, if any; \<open>then_do\<close> is the semicolon: the second statement runs only
  when the first raised nothing.\<close>

definition then_do :: "exn option \<times> 's \<Rightarrow> ('s \<Rightarrow> exn option \<times> 's) \<Rightarrow> exn option \<times> 's" where
  "then_do r f = (case r of (None, s) \<Rightarrow> f s | (Some e, s) \<Rightarrow> (Some e, s))"

fun for_each :: "nat list \<Rightarrow> (nat \<Rightarrow> 's \<Rightarrow> exn option \<times> 's) \<Rightarrow> 's \<Rightarrow> exn option \<times> 's" where
  "for_each [] f s = (None, s)"
| "for_each (k # ks) f s = then_do (f k s) (for_each ks f)"

section \<open>The external collaborators\<close>

text \<open>
  The manifold engine and the raytracing view are consumed through their methods only. Their
  behaviour is a parameter of the model: a record of functions on the engine's own state
  \<open>'m\<close>. A method that computes may raise; \<open>recompute_raytracing_data_and_redraw\<close> is the
  method of the \<^verbatim>\<open>RaytracingView\<close> (\<^verbatim>\<open>self.main_widget\<close>).
\<close>

record 'm engine =
  has_cusp_area_matrix :: "'m \<Rightarrow> bool"
  copy :: "'m \<Rightarrow> exn + 'm"
  num_cusps :: "'m \<Rightarrow> nat"
  cusp_info :: "'m \<Rightarrow> (real \<times> real) list"
  dehn_fill :: "(real \<times> real) list \<Rightarrow> 'm \<Rightarrow> exn + 'm"
  init_hyperbolic_structure :: "bool \<Rightarrow> 'm \<Rightarrow> exn + 'm"
  volume :: "'m \<Rightarrow> exn + real"
  solution_type :: "'m \<Rightarrow> int"
  cusp_area_matrix :: "string \<Rightarrow> 'm \<Rightarrow> exn + real list list"
  recompute_raytracing_data_and_redraw :: "'m \<Rightarrow> exn + 'm"

text \<open>The calls the widget makes to its collaborators, in the order it makes them.\<close>

datatype call =
    Call_cusp_info
  | Call_dehn_fill "(real \<times> real) list"
  | Call_init_hyperbolic_structure bool
  | Call_volume
  | Call_solution_type
  | Call_recompute_raytracing_data_and_redraw
  | Call_controller_update nat
  | Call_fillings_changed_callback

section \<open>Parameter bindings\<close>

text \<open>
  A \<^verbatim>\<open>UniformDictController\<close> as \<^verbatim>\<open>create_horizontal_scale\<close> is asked to make it: the
  entry of the dictionary it is bound to (\<open>key\<close>, \<open>index\<close>, \<open>component_index\<close>), its range
  (\<^verbatim>\<open>from_\<close>, \<^verbatim>\<open>to\<close>) and its \<^verbatim>\<open>update_function\<close>. \<open>shown\<close> is the value the slider was
  last told to display by \<^verbatim>\<open>update()\<close>, \<open>None\<close> before the first refresh.
\<close>

datatype callback = Push_fillings_to_manifold | Recompute_raytracing_data_and_redraw

record controller =
  key :: string
  index :: nat
  component_index :: "nat option"
  range_from :: real
  range_to :: real
  update_function :: "callback option"
  shown :: "real option"

section \<open>The widget\<close>

text \<open>
  The attributes of \<^verbatim>\<open>RaytracingWidget\<close> the methods below read and write.
  \<open>fillings\<close> is \<^verbatim>\<open>self.filling_dict['fillings']\<close>, a type tag and the list of pairs;
  \<open>vol_label\<close> is \<open>None\<close> while the attribute does not exist yet; \<open>trace\<close> records the calls
  made to the collaborators.
\<close>

record 'm widget =
  manifold :: 'm
  fillings :: "string \<times> (real \<times> real) list"
  filling_controllers :: "controller list"
  vol_label :: "string option"
  fillings_changed_callback :: "('m \<Rightarrow> exn + 'm) option"
  trace :: "call list"

definition logc :: "call \<Rightarrow> 'm widget \<Rightarrow> 'm widget" where
  "logc c w = w\<lparr>trace := trace w @ [c]\<rparr>"

text \<open>A call of a method that may change the manifold and may raise.\<close>

definition call_manifold :: "call \<Rightarrow> ('m \<Rightarrow> exn + 'm) \<Rightarrow> 'm widget \<Rightarrow> exn option \<times> 'm widget" where
  "call_manifold c f w =
     (let w1 = logc c w
      in case f (manifold w1) of
           Inl e \<Rightarrow> (Some e, w1)
         | Inr m \<Rightarrow> (None, w1\<lparr>manifold := m\<rparr>))"

definition solution_type_text :: "string list" where
  "solution_type_text =
     [''degenerate'',
      ''geometric'',
      ''non-geometric'',
      ''flat'',
      ''degenerate'',
      ''degenerate'',
      ''degenerate'']"

definition update_volume_label :: "'m engine \<Rightarrow> 'm widget \<Rightarrow> exn option \<times> 'm widget" where
  "update_volume_label E w =
     (let w1 = logc Call_volume w
      in case (case volume E (manifold w1) of
                 Inr v \<Rightarrow> Inr (format_3f v)
               | Inl ValueError \<Rightarrow> Inr ''-''
               | Inl e \<Rightarrow> Inl e) of
           Inl e \<Rightarrow> (Some e, w1)
         | Inr vol_text \<Rightarrow>
             (let w2 = logc Call_solution_type w1
              in case py_getitem solution_type_text (solution_type E (manifold w2)) of
                   Inl e \<Rightarrow> (Some e, w2)
                 | Inr sol_text \<Rightarrow>
                     (case vol_label w2 of
                        None \<Rightarrow> (None, w2)
                      | Some old \<Rightarrow>
                          (None, w2\<lparr>vol_label :=
                             Some (''Vol: '' @ vol_text @ '' ('' @ sol_text @ '')'')\<rparr>))))"

section \<open>The controller's two directions\<close>

text \<open>
  Modelled from the spec: the class \<^verbatim>\<open>UniformDictController\<close> lives in the module
  \<^verbatim>\<open>gui_utilities\<close>, which is not among the sources. The spec's contract of the parameter
  controller (4.3) gives its two directions. Reading the bound entry: the \<open>index\<close>-th element
  of the sequence, and of that pair the component \<open>component_index\<close>.
\<close>

definition get_value :: "(real \<times> real) list \<Rightarrow> controller \<Rightarrow> exn + real" where
  "get_value fs c =
     (if index c < length fs
      then (case component_index c of
              Some 0 \<Rightarrow> Inr (fst (fs ! index c))
            | Some (Suc 0) \<Rightarrow> Inr (snd (fs ! index c))
            | _ \<Rightarrow> Inl IndexError)
      else Inl IndexError)"

text \<open>
  Modelled from the spec: \<^verbatim>\<open>update()\<close>, the pull-from-model direction, refreshes the
  displayed value and does not invoke the \<^verbatim>\<open>update_function\<close>. \<open>k\<close> is the position of
  the controller in \<^verbatim>\<open>self.filling_controllers\<close>.
\<close>

definition controller_update :: "nat \<Rightarrow> 'm widget \<Rightarrow> exn option \<times> 'm widget" where
  "controller_update k w =
     (let w1 = logc (Call_controller_update k) w; c = filling_controllers w1 ! k
      in case get_value (snd (fillings w1)) c of
           Inl e \<Rightarrow> (Some e, w1)
         | Inr v \<Rightarrow>
             (None, w1\<lparr>filling_controllers := (filling_controllers w1)[k := c\<lparr>shown := Some v\<rparr>]\<rparr>))"

text \<open>Modelled from the spec: on a user edit the new value is clamped to
  \<^verbatim>\<open>[from_, to]\<close> and written to one component of the pair at \<open>index\<close>.\<close>

definition clamp :: "real \<Rightarrow> real \<Rightarrow> real \<Rightarrow> real" where
  "clamp lo hi v = max lo (min hi v)"

text \<open>Modelled from the spec: the write of \<^verbatim>\<open>UniformDictController\<close> (not among the sources)
  into the entry it is bound to, the value clamped first; an index or component that does not
  exist raises \<^verbatim>\<open>IndexError\<close>.\<close>

definition set_value :: "controller \<Rightarrow> real \<Rightarrow> (real \<times> real) list \<Rightarrow> exn + (real \<times> real) list" where
  "set_value c v fs =
     (if index c < length fs
      then (let x = clamp (range_from c) (range_to c) v
            in case component_index c of
                 Some 0 \<Rightarrow> Inr (fs[index c := (x, snd (fs ! index c))])
               | Some (Suc 0) \<Rightarrow> Inr (fs[index c := (fst (fs ! index c), x)])
               | _ \<Rightarrow> Inl IndexError)
      else Inl IndexError)"

section \<open>The recompute and redraw orchestrator\<close>

definition update_filling_sliders :: "'m widget \<Rightarrow> exn option \<times> 'm widget" where
  "update_filling_sliders w = for_each [0..<length (filling_controllers w)] controller_update w"

text \<open>\<^verbatim>\<open>_fillings_from_manifold\<close>: the value it returns and the state after the call of
  \<^verbatim>\<open>cusp_info\<close>. Of every dictionary \<^verbatim>\<open>d\<close> of \<^verbatim>\<open>cusp_info()\<close> only \<^verbatim>\<open>d['filling']\<close> is read,
  so \<open>cusp_info\<close> of the engine gives these pairs.\<close>

definition fillings_from_manifold ::
  "'m engine \<Rightarrow> 'm widget \<Rightarrow> (string \<times> (real \<times> real) list) \<times> 'm widget" where
  "fillings_from_manifold E w =
     ((''vec2[]'', map (\<lambda>d. (fst d, snd d)) (cusp_info E (manifold w))), logc Call_cusp_info w)"

definition pull_fillings_from_manifold :: "'m engine \<Rightarrow> 'm widget \<Rightarrow> exn option \<times> 'm widget" where
  "pull_fillings_from_manifold E w =
     (let (v, w1) = fillings_from_manifold E w; w2 = w1\<lparr>fillings := v\<rparr>
      in then_do (update_filling_sliders w2) (\<lambda>w3.
         then_do (call_manifold Call_recompute_raytracing_data_and_redraw
                    (recompute_raytracing_data_and_redraw E) w3)
           (update_volume_label E)))"

definition push_fillings_to_manifold :: "'m engine \<Rightarrow> 'm widget \<Rightarrow> exn option \<times> 'm widget" where
  "push_fillings_to_manifold E w =
     then_do (call_manifold (Call_dehn_fill (snd (fillings w)))
                (dehn_fill E (snd (fillings w))) w) (\<lambda>w1.
     then_do (call_manifold Call_recompute_raytracing_data_and_redraw
                (recompute_raytracing_data_and_redraw E) w1) (\<lambda>w2.
     then_do (update_volume_label E w2) (\<lambda>w3.
       case fillings_changed_callback w3 of
         None \<Rightarrow> (None, w3)
       | Some cb \<Rightarrow> call_manifold Call_fillings_changed_callback cb w3)))"

definition recompute_hyperbolic_structure :: "'m engine \<Rightarrow> 'm widget \<Rightarrow> exn option \<times> 'm widget" where
  "recompute_hyperbolic_structure E w =
     then_do (call_manifold (Call_init_hyperbolic_structure True)
                (init_hyperbolic_structure E True) w) (\<lambda>w1.
     then_do (call_manifold Call_recompute_raytracing_data_and_redraw
                (recompute_raytracing_data_and_redraw E) w1) (\<lambda>w2.
     then_do (update_volume_label E w2) (\<lambda>w3.
       case fillings_changed_callback w3 of
         None \<Rightarrow> (None, w3)
       | Some cb \<Rightarrow> call_manifold Call_fillings_changed_callback cb w3)))"

definition round_pair :: "real \<times> real \<Rightarrow> real \<times> real" where
  "round_pair f = (of_int (py_round (fst f)), of_int (py_round (snd f)))"

definition round_fillings :: "'m engine \<Rightarrow> 'm widget \<Rightarrow> exn option \<times> 'm widget" where
  "round_fillings E w =
     (let w1 = w\<lparr>fillings := (fst (fillings w), map round_pair (snd (fillings w)))\<rparr>
      in then_do (update_filling_sliders w1) (push_fillings_to_manifold E))"

text \<open>
  Modelled from the spec: a user edit of the slider at position \<open>k\<close>
  (\<^verbatim>\<open>UniformDictController\<close>, not among the sources): the clamped value is written, and
  after a successful write the bound \<^verbatim>\<open>update_function\<close> is invoked.
\<close>

definition scale_command :: "'m engine \<Rightarrow> nat \<Rightarrow> real \<Rightarrow> 'm widget \<Rightarrow> exn option \<times> 'm widget" where
  "scale_command E k v w =
     (let c = filling_controllers w ! k
      in case set_value c v (snd (fillings w)) of
           Inl e \<Rightarrow> (Some e, w)
         | Inr fs \<Rightarrow>
             (let w1 = w\<lparr>fillings := (fst (fillings w), fs)\<rparr>
              in case update_function c of
                   None \<Rightarrow> (None, w1)
                 | Some Push_fillings_to_manifold \<Rightarrow> push_fillings_to_manifold E w1
                 | Some Recompute_raytracing_data_and_redraw \<Rightarrow>
                     call_manifold Call_recompute_raytracing_data_and_redraw
                       (recompute_raytracing_data_and_redraw E) w1))"

text \<open>The loop of \<^verbatim>\<open>create_fillings_frame\<close>: two sliders for every cusp, one for each
  component of its filling.\<close>

definition filling_slider :: "nat \<Rightarrow> nat \<Rightarrow> controller" where
  "filling_slider i j =
     \<lparr>key = ''fillings'', index = i, component_index = Some j,
      range_from = - 15, range_to = 15,
      update_function = Some Push_fillings_to_manifold, shown = None\<rparr>"

definition create_fillings_frame :: "'m engine \<Rightarrow> 'm widget \<Rightarrow> 'm widget" where
  "create_fillings_frame E w =
     w\<lparr>filling_controllers :=
         concat (map (\<lambda>i. [filling_slider i 0, filling_slider i 1])
                     [0..<num_cusps E (manifold w)])\<rparr>"

section \<open>The maximal cusp area\<close>

text \<open>
  \<^verbatim>\<open>_maximal_cusp_area\<close> works on a copy of the manifold it is given, so the objects are kept
  in a store: a list of engine states, a reference being a position in it (\<open>mfd < length h\<close>
  for the reference \<open>mfd\<close> of a live object). A method called on a reference changes the
  object at that position only; \<^verbatim>\<open>copy()\<close> allocates a new one at the end of the store.
\<close>

definition py_max :: "real list \<Rightarrow> exn + real" where
  "py_max xs = (case xs of [] \<Rightarrow> Inl ValueError | x # ys \<Rightarrow> Inr (fold max ys x))"

definition math_sqrt :: "real \<Rightarrow> exn + real" where
  "math_sqrt x = (if x < 0 then Inl ValueError else Inr (sqrt x))"

fun diagonal :: "real list list \<Rightarrow> nat list \<Rightarrow> exn + real list" where
  "diagonal m [] = Inr []"
| "diagonal m (i # js) =
     (if i < length m \<and> i < length (m ! i)
      then (case diagonal m js of Inl e \<Rightarrow> Inl e | Inr ds \<Rightarrow> Inr (m ! i ! i # ds))
      else Inl IndexError)"

text \<open>The value returned and the store left behind. Every exception raised in the
  \<^verbatim>\<open>try\<close> block is caught and answered by \<open>5.0\<close> (the message printed is not modelled).\<close>

definition maximal_cusp_area :: "'m engine \<Rightarrow> 'm list \<Rightarrow> nat \<Rightarrow> real \<times> 'm list" where
  "maximal_cusp_area E h mfd =
     (if \<not> has_cusp_area_matrix E (h ! mfd) then (5.0, h)
      else case copy E (h ! mfd) of
        Inl e \<Rightarrow> (5.0, h)
      | Inr c \<Rightarrow>
         (let mfd' = length h; h1 = h @ [c]
          in case dehn_fill E (replicate (num_cusps E (h1 ! mfd')) (0, 0)) (h1 ! mfd') of
            Inl e \<Rightarrow> (5.0, h1)
          | Inr c1 \<Rightarrow>
             (let h2 = h1[mfd' := c1]
              in case init_hyperbolic_structure E True (h2 ! mfd') of
                Inl e \<Rightarrow> (5.0, h2)
              | Inr c2 \<Rightarrow>
                 (let h3 = h2[mfd' := c2]
                  in case cusp_area_matrix E ''trigDependent'' (h3 ! mfd') of
                    Inl e \<Rightarrow> (5.0, h3)
                  | Inr m \<Rightarrow>
                     (case diagonal m [0..<num_cusps E (h3 ! mfd')] of
                        Inl e \<Rightarrow> (5.0, h3)
                      | Inr ds \<Rightarrow>
                         (case py_max ds of
                            Inl e \<Rightarrow> (5.0, h3)
                          | Inr x \<Rightarrow>
                             (case math_sqrt x of
                                Inl e \<Rightarrow> (5.0, h3)
                              | Inr r \<Rightarrow> (r, h3))))))))"

text \<open>\<^verbatim>\<open>cusp_area_maximum\<close> of \<^verbatim>\<open>create_cusp_areas_frame\<close>, the \<^verbatim>\<open>to\<close> of every cusp area
  slider.\<close>

definition cusp_area_maximum :: "'m engine \<Rightarrow> 'm list \<Rightarrow> nat \<Rightarrow> real" where
  "cusp_area_maximum E h mfd = 1.05 * fst (maximal_cusp_area E h mfd)"

section \<open>Engines to run the model on\<close>

text \<open>
  A small engine in the way of a one-cusped manifold: its state is the list of fillings,
  every computation succeeds, the volume is \<open>2.0299\<close> and the solution is geometric. Two
  variants: one whose volume is undefined and whose solution is degenerate, one whose cusp
  area matrix cannot be computed.
\<close>

definition plain_engine :: "(real \<times> real) list engine" where
  "plain_engine =
     \<lparr>has_cusp_area_matrix = (\<lambda>m. True),
      copy = Inr,
      num_cusps = length,
      cusp_info = (\<lambda>m. m),
      dehn_fill = (\<lambda>fs m. if length fs = length m then Inr fs else Inl ValueError),
      init_hyperbolic_structure = (\<lambda>b m. Inr m),
      volume = (\<lambda>m. Inr 2.0299),
      solution_type = (\<lambda>m. 1),
      cusp_area_matrix = (\<lambda>method m. Inr (replicate (length m) (replicate (length m) 4))),
      recompute_raytracing_data_and_redraw = Inr\<rparr>"

definition degenerate_engine :: "(real \<times> real) list engine" where
  "degenerate_engine = plain_engine\<lparr>volume := (\<lambda>m. Inl ValueError), solution_type := (\<lambda>m. 0)\<rparr>"

definition no_area_engine :: "(real \<times> real) list engine" where
  "no_area_engine = plain_engine\<lparr>cusp_area_matrix := (\<lambda>method m. Inl OtherException)\<rparr>"

definition plain_widget :: "(real \<times> real) list widget" where
  "plain_widget =
     \<lparr>manifold = [(1.4, 2.5)],
      fillings = (''vec2[]'', [(1.4, 2.5)]),
      filling_controllers = [filling_slider 0 0, filling_slider 0 1],
      vol_label = Some [],
      fillings_changed_callback = Some Inr,
      trace = []\<rparr>"

definition two_cusp_widget :: "(real \<times> real) list widget" where
  "two_cusp_widget =
     \<lparr>manifold = [(0, 0), (0, 0)],
      fillings = (''vec2[]'', [(1, 2), (3, 4)]),
      filling_controllers =
        [filling_slider 0 0, filling_slider 0 1, filling_slider 1 0, filling_slider 1 1],
      vol_label = Some [],
      fillings_changed_callback = Some Inr,
      trace = []\<rparr>"

section \<open>The calls a statement makes\<close>

text \<open>
  \<open>performs w r full\<close>: the statement that was started in the state \<open>w\<close> and ended with the
  outcome \<open>r\<close> has added to the trace an initial part of the list \<open>full\<close>, and the whole of it
  when nothing was raised.
\<close>

definition performs :: "'m widget \<Rightarrow> exn option \<times> 'm widget \<Rightarrow> call list \<Rightarrow> bool" where
  "performs w r full \<longleftrightarrow>
     (\<exists>cs. trace (snd r) = trace w @ cs \<and> prefix cs full \<and> (fst r = None \<longrightarrow> cs = full))"

section \<open>Sequencing and formatting\<close>

lemma then_do_None [simp]: "then_do (None, s) f = f s"
  by (simp add: then_do_def)

lemma then_do_Some [simp]: "then_do (Some e, s) f = (Some e, s)"
  by (simp add: then_do_def)

lemmas orchestrator_defs =
  push_fillings_to_manifold_def recompute_hyperbolic_structure_def
  call_manifold_def update_volume_label_def logc_def Let_def

lemmas engine_defs =
  plain_engine_def degenerate_engine_def no_area_engine_def plain_widget_def filling_slider_def

lemma py_round_2030:
  assumes "2029.5 < y" and "y < 2030.5"
  shows "py_round y = 2030"
proof -
  have "\<lfloor>y\<rfloor> = 2029 \<or> \<lfloor>y\<rfloor> = 2030"
    using assms by linarith
  then show ?thesis
  proof
    assume "\<lfloor>y\<rfloor> = 2029"
    then show ?thesis using assms by (simp add: py_round_def Let_def)
  next
    assume "\<lfloor>y\<rfloor> = 2030"
    then show ?thesis using assms by (simp add: py_round_def Let_def)
  qed
qed

lemma format_3f_2030:
  assumes "2.0295 < v" and "v < 2.0305"
  shows "format_3f v = ''2.030''"
proof -
  have "py_round (\<bar>v\<bar> * 1000) = 2030"
    using assms by (intro py_round_2030) auto
  then show ?thesis
    using assms by (simp add: format_3f_def Let_def digit_def)
qed

lemma solution_type_text_getitem:
  assumes "0 \<le> c" and "c \<le> 6"
  shows "py_getitem solution_type_text c =
         Inr ([''degenerate'', ''geometric'', ''non-geometric'', ''flat'', ''degenerate'',
               ''degenerate'', ''degenerate''] ! nat c)"
  using assms by (simp add: py_getitem_def solution_type_text_def)

section \<open>The volume label\<close>

text \<open>
  C1. For every status code \<open>c\<close> with \<open>0 \<le> c \<le> 6\<close> that \<^verbatim>\<open>solution_type\<close> returns, the
  lookup in the table is defined and \<^verbatim>\<open>update_volume_label\<close> writes into the label, as its
  solution type, exactly the \<open>c\<close>-th entry of the list degenerate, geometric, non-geometric,
  flat, degenerate, degenerate, degenerate (the volume being defined or raising
  \<^verbatim>\<open>ValueError\<close>, and the label existing).
\<close>

theorem update_volume_label_solution_type:
  assumes "0 \<le> c" and "c \<le> 6"
    and "solution_type E (manifold w) = c"
    and "volume E (manifold w) = Inr v \<or> volume E (manifold w) = Inl ValueError"
    and "vol_label w = Some old"
  shows "py_getitem solution_type_text c =
           Inr ([''degenerate'', ''geometric'', ''non-geometric'', ''flat'', ''degenerate'',
                 ''degenerate'', ''degenerate''] ! nat c) \<and>
         fst (update_volume_label E w) = None \<and>
         vol_label (snd (update_volume_label E w)) =
           Some (''Vol: '' @ (case volume E (manifold w) of Inr x \<Rightarrow> format_3f x | Inl e \<Rightarrow> ''-'') @
                 '' ('' @
                 [''degenerate'', ''geometric'', ''non-geometric'', ''flat'', ''degenerate'',
                  ''degenerate'', ''degenerate''] ! nat c @ '')'')"
proof -
  note tab = solution_type_text_getitem [OF assms(1,2)]
  from assms(4) show ?thesis
  proof
    assume "volume E (manifold w) = Inr v"
    with tab assms(3,5) show ?thesis
      by (simp add: orchestrator_defs)
  next
    assume "volume E (manifold w) = Inl ValueError"
    with tab assms(3,5) show ?thesis
      by (simp add: orchestrator_defs)
  qed
qed

theorem update_volume_label_solution_type_witness:
  "vol_label (snd (update_volume_label plain_engine plain_widget)) =
     Some ''Vol: 2.030 (geometric)'' \<and>
   vol_label (snd (update_volume_label degenerate_engine plain_widget)) =
     Some ''Vol: - (degenerate)''"
proof -
  have f: "format_3f 2.0299 = ''2.030''"
    by (rule format_3f_2030) simp_all
  have "vol_label (snd (update_volume_label plain_engine plain_widget)) =
          Some ''Vol: 2.030 (geometric)''"
    using update_volume_label_solution_type
            [of 1 plain_engine plain_widget "2.0299" "[]"] f
    by (simp add: engine_defs)
  moreover have "vol_label (snd (update_volume_label degenerate_engine plain_widget)) =
          Some ''Vol: - (degenerate)''"
    using update_volume_label_solution_type
            [of 0 degenerate_engine plain_widget 0 "[]"]
    by (simp add: engine_defs)
  ultimately show ?thesis by simp
qed

text \<open>
  C2. When \<^verbatim>\<open>volume()\<close> raises \<^verbatim>\<open>ValueError\<close>, \<^verbatim>\<open>update_volume_label\<close> raises nothing and the
  volume shown in the label is exactly \<^verbatim>\<open>-\<close>; when \<^verbatim>\<open>volume()\<close> returns \<open>2.0299\<close> (or any
  value that lies strictly between \<open>2.0295\<close> and \<open>2.0305\<close>, as the float nearest to \<open>2.0299\<close>
  does), the volume shown is exactly \<^verbatim>\<open>2.030\<close>.
\<close>

theorem update_volume_label_volume_text:
  assumes "vol_label w = Some old"
    and "py_getitem solution_type_text (solution_type E (manifold w)) = Inr sol_text"
  shows "(volume E (manifold w) = Inl ValueError \<longrightarrow>
            fst (update_volume_label E w) = None \<and>
            vol_label (snd (update_volume_label E w)) =
              Some (''Vol: '' @ ''-'' @ '' ('' @ sol_text @ '')'')) \<and>
         (volume E (manifold w) = Inr v \<and> 2.0295 < v \<and> v < 2.0305 \<longrightarrow>
            fst (update_volume_label E w) = None \<and>
            vol_label (snd (update_volume_label E w)) =
              Some (''Vol: '' @ ''2.030'' @ '' ('' @ sol_text @ '')''))"
  using assms by (simp add: orchestrator_defs format_3f_2030)

theorem update_volume_label_volume_text_witness:
  "volume degenerate_engine (manifold plain_widget) = Inl ValueError \<and>
   update_volume_label degenerate_engine plain_widget =
     (None, plain_widget\<lparr>vol_label := Some ''Vol: - (degenerate)'',
                         trace := [Call_volume, Call_solution_type]\<rparr>) \<and>
   volume plain_engine (manifold plain_widget) = Inr 2.0299 \<and>
   fst (update_volume_label plain_engine plain_widget) = None \<and>
   vol_label (snd (update_volume_label plain_engine plain_widget)) =
     Some ''Vol: 2.030 (geometric)''"
proof -
  have t0: "py_getitem solution_type_text (solution_type degenerate_engine (manifold plain_widget)) =
            Inr ''degenerate''"
    by (simp add: engine_defs py_getitem_def solution_type_text_def)
  have t1: "py_getitem solution_type_text (solution_type plain_engine (manifold plain_widget)) =
            Inr ''geometric''"
    by (simp add: engine_defs py_getitem_def solution_type_text_def)
  have l: "vol_label plain_widget = Some []"
    by (simp add: engine_defs)
  have d: "volume degenerate_engine (manifold plain_widget) = Inl ValueError"
    by (simp add: engine_defs)
  have p: "volume plain_engine (manifold plain_widget) = Inr 2.0299"
    by (simp add: engine_defs)
  have e: "update_volume_label degenerate_engine plain_widget =
     (None, plain_widget\<lparr>vol_label := Some ''Vol: - (degenerate)'',
                         trace := [Call_volume, Call_solution_type]\<rparr>)"
    using t0 by (simp add: orchestrator_defs engine_defs)
  show ?thesis
    using update_volume_label_volume_text [OF l t0, of 0] d
          update_volume_label_volume_text [OF l t1, of "2.0299"] p e
    by simp
qed

section \<open>Traces and frames of the orchestrator\<close>

text \<open>The calls of two statements in sequence are those of the first followed by those of the
  second, which runs only when the first raised nothing.\<close>

lemma performs_then_do:
  assumes "performs w r f1"
    and "\<And>w1. r = (None, w1) \<Longrightarrow> performs w1 (g w1) f2"
  shows "performs w (then_do r g) (f1 @ f2)"
proof (cases r)
  case (Pair x w1)
  show ?thesis
  proof (cases x)
    case None
    with Pair assms(1) have t: "trace w1 = trace w @ f1"
      by (auto simp: performs_def)
    from assms(2) Pair None have "performs w1 (g w1) f2" by simp
    then obtain cs where cs: "trace (snd (g w1)) = trace w1 @ cs" "prefix cs f2"
        "fst (g w1) = None \<longrightarrow> cs = f2"
      by (auto simp: performs_def)
    show ?thesis
      unfolding performs_def
    proof (intro exI conjI)
      show "trace (snd (then_do r g)) = trace w @ (f1 @ cs)"
        using Pair None t cs by simp
      show "prefix (f1 @ cs) (f1 @ f2)" using cs by simp
      show "fst (then_do r g) = None \<longrightarrow> f1 @ cs = f1 @ f2"
        using Pair None cs by simp
    qed
  next
    case (Some e)
    with Pair assms(1) show ?thesis
      by (auto simp: performs_def)
  qed
qed

lemma performs_call_manifold: "performs w (call_manifold c f w) [c]"
  by (simp add: performs_def call_manifold_def logc_def Let_def split: sum.splits)

lemma performs_update_volume_label:
  "performs w (update_volume_label E w) [Call_volume, Call_solution_type]"
  by (simp add: performs_def orchestrator_defs split: sum.splits option.splits exn.splits)

lemma performs_controller_update:
  "performs w (controller_update k w) [Call_controller_update k]"
  by (simp add: performs_def controller_update_def logc_def Let_def split: sum.splits)

lemma performs_for_each:
  "performs w (for_each ks controller_update w) (map Call_controller_update ks)"
proof (induction ks arbitrary: w)
  case Nil
  show ?case by (simp add: performs_def)
next
  case (Cons k ks)
  have "performs w (then_do (controller_update k w) (for_each ks controller_update))
          ([Call_controller_update k] @ map Call_controller_update ks)"
    by (rule performs_then_do [OF performs_controller_update]) (rule Cons.IH)
  then show ?case by simp
qed

text \<open>What the statements leave unchanged.\<close>

lemma call_manifold_frame:
  "fillings (snd (call_manifold c f w)) = fillings w \<and>
   filling_controllers (snd (call_manifold c f w)) = filling_controllers w \<and>
   vol_label (snd (call_manifold c f w)) = vol_label w \<and>
   fillings_changed_callback (snd (call_manifold c f w)) = fillings_changed_callback w"
  by (simp add: call_manifold_def logc_def Let_def split: sum.splits)

lemma update_volume_label_frame:
  "manifold (snd (update_volume_label E w)) = manifold w \<and>
   fillings (snd (update_volume_label E w)) = fillings w \<and>
   filling_controllers (snd (update_volume_label E w)) = filling_controllers w \<and>
   fillings_changed_callback (snd (update_volume_label E w)) = fillings_changed_callback w"
  by (simp add: orchestrator_defs split: sum.splits option.splits exn.splits)

lemma controller_update_frame:
  "manifold (snd (controller_update k w)) = manifold w \<and>
   fillings (snd (controller_update k w)) = fillings w \<and>
   vol_label (snd (controller_update k w)) = vol_label w \<and>
   fillings_changed_callback (snd (controller_update k w)) = fillings_changed_callback w \<and>
   length (filling_controllers (snd (controller_update k w))) = length (filling_controllers w)"
  by (simp add: controller_update_def logc_def Let_def split: sum.splits)

lemma for_each_frame:
  "manifold (snd (for_each ks controller_update w)) = manifold w \<and>
   fillings (snd (for_each ks controller_update w)) = fillings w \<and>
   vol_label (snd (for_each ks controller_update w)) = vol_label w \<and>
   fillings_changed_callback (snd (for_each ks controller_update w)) = fillings_changed_callback w \<and>
   length (filling_controllers (snd (for_each ks controller_update w))) =
     length (filling_controllers w)"
proof (induction ks arbitrary: w)
  case Nil
  show ?case by simp
next
  case (Cons k ks)
  obtain x w1 where r: "controller_update k w = (x, w1)" by (cases "controller_update k w")
  with controller_update_frame [of k w]
  have f: "manifold w1 = manifold w" "fillings w1 = fillings w" "vol_label w1 = vol_label w"
    "fillings_changed_callback w1 = fillings_changed_callback w"
    "length (filling_controllers w1) = length (filling_controllers w)"
    by simp_all
  show ?case
  proof (cases x)
    case None
    with r f Cons.IH [of w1] show ?thesis by simp
  next
    case (Some e)
    with r f show ?thesis by simp
  qed
qed

lemma push_frame:
  "fillings (snd (push_fillings_to_manifold E w)) = fillings w \<and>
   filling_controllers (snd (push_fillings_to_manifold E w)) = filling_controllers w"
  by (auto simp add: orchestrator_defs split: sum.splits option.splits exn.splits)

lemma performs_push:
  "performs w (push_fillings_to_manifold E w)
     ([Call_dehn_fill (snd (fillings w)), Call_recompute_raytracing_data_and_redraw,
       Call_volume, Call_solution_type] @
      (case fillings_changed_callback w of None \<Rightarrow> [] | Some cb \<Rightarrow> [Call_fillings_changed_callback]))"
  by (auto simp add: performs_def orchestrator_defs split: sum.splits option.splits exn.splits)

lemma performs_recompute:
  "performs w (recompute_hyperbolic_structure E w)
     ([Call_init_hyperbolic_structure True, Call_recompute_raytracing_data_and_redraw,
       Call_volume, Call_solution_type] @
      (case fillings_changed_callback w of None \<Rightarrow> [] | Some cb \<Rightarrow> [Call_fillings_changed_callback]))"
  by (auto simp add: performs_def orchestrator_defs split: sum.splits option.splits exn.splits)

lemma performs_round:
  "performs w (round_fillings E w)
     (map Call_controller_update [0..<length (filling_controllers w)] @
      [Call_dehn_fill (map round_pair (snd (fillings w))), Call_recompute_raytracing_data_and_redraw,
       Call_volume, Call_solution_type] @
      (case fillings_changed_callback w of None \<Rightarrow> [] | Some cb \<Rightarrow> [Call_fillings_changed_callback]))"
proof -
  define w0 where "w0 = w\<lparr>fillings := (fst (fillings w), map round_pair (snd (fillings w)))\<rparr>"
  have a: "performs w0 (update_filling_sliders w0)
             (map Call_controller_update [0..<length (filling_controllers w)])"
    using performs_for_each [of w0 "[0..<length (filling_controllers w0)]"]
    by (simp add: update_filling_sliders_def w0_def)
  have b: "performs w1 (push_fillings_to_manifold E w1)
     ([Call_dehn_fill (map round_pair (snd (fillings w))), Call_recompute_raytracing_data_and_redraw,
       Call_volume, Call_solution_type] @
      (case fillings_changed_callback w of None \<Rightarrow> [] | Some cb \<Rightarrow> [Call_fillings_changed_callback]))"
    if "update_filling_sliders w0 = (None, w1)" for w1
  proof -
    from that for_each_frame [of "[0..<length (filling_controllers w0)]" w0]
    have "fillings w1 = fillings w0" "fillings_changed_callback w1 = fillings_changed_callback w0"
      by (simp_all add: update_filling_sliders_def)
    then show ?thesis
      using performs_push [of w1 E] by (simp add: w0_def)
  qed
  have "performs w0 (then_do (update_filling_sliders w0) (push_fillings_to_manifold E))
     (map Call_controller_update [0..<length (filling_controllers w)] @
      [Call_dehn_fill (map round_pair (snd (fillings w))), Call_recompute_raytracing_data_and_redraw,
       Call_volume, Call_solution_type] @
      (case fillings_changed_callback w of None \<Rightarrow> [] | Some cb \<Rightarrow> [Call_fillings_changed_callback]))"
    by (rule performs_then_do [OF a b])
  then show ?thesis
    by (simp add: round_fillings_def Let_def w0_def performs_def)
qed

lemma performs_pull:
  "performs w (pull_fillings_from_manifold E w)
     ([Call_cusp_info] @ map Call_controller_update [0..<length (filling_controllers w)] @
      [Call_recompute_raytracing_data_and_redraw] @ [Call_volume, Call_solution_type])"
proof -
  define w0 where "w0 = w\<lparr>trace := trace w @ [Call_cusp_info], fillings := (''vec2[]'', cusp_info E (manifold w))\<rparr>"
  have a: "performs w0 (update_filling_sliders w0)
             (map Call_controller_update [0..<length (filling_controllers w)])"
    using performs_for_each [of w0 "[0..<length (filling_controllers w0)]"]
    by (simp add: update_filling_sliders_def w0_def)
  have "performs w0 (then_do (update_filling_sliders w0) (\<lambda>w3.
         then_do (call_manifold Call_recompute_raytracing_data_and_redraw
                    (recompute_raytracing_data_and_redraw E) w3)
           (update_volume_label E)))
     (map Call_controller_update [0..<length (filling_controllers w)] @
      [Call_recompute_raytracing_data_and_redraw] @ [Call_volume, Call_solution_type])"
    by (intro performs_then_do a performs_call_manifold performs_update_volume_label)
  then have "performs w0 (pull_fillings_from_manifold E w)
     (map Call_controller_update [0..<length (filling_controllers w)] @
      [Call_recompute_raytracing_data_and_redraw] @ [Call_volume, Call_solution_type])"
    by (simp add: pull_fillings_from_manifold_def fillings_from_manifold_def logc_def Let_def w0_def)
  then show ?thesis
    by (auto simp add: performs_def w0_def)
qed

lemma py_round_near: "\<bar>of_int (py_round x) - x\<bar> \<le> 1 / 2"
  unfolding py_round_def Let_def by (auto; linarith)

lemma update_filling_sliders_frame:
  "manifold (snd (update_filling_sliders w)) = manifold w \<and>
   fillings (snd (update_filling_sliders w)) = fillings w \<and>
   vol_label (snd (update_filling_sliders w)) = vol_label w \<and>
   fillings_changed_callback (snd (update_filling_sliders w)) = fillings_changed_callback w \<and>
   length (filling_controllers (snd (update_filling_sliders w))) = length (filling_controllers w)"
  unfolding update_filling_sliders_def by (rule for_each_frame)

lemma then_do_fillings:
  assumes "fillings (snd r) = F" and "\<And>w1. fillings w1 = F \<Longrightarrow> fillings (snd (g w1)) = F"
  shows "fillings (snd (then_do r g)) = F"
  using assms by (cases r; cases "fst r") auto

lemma round_fillings_frame:
  "fillings (snd (round_fillings E w)) = (fst (fillings w), map round_pair (snd (fillings w)))"
  unfolding round_fillings_def Let_def
  by (rule then_do_fillings) (simp_all add: update_filling_sliders_frame push_frame)

lemma pull_fillings_frame:
  "fillings (snd (pull_fillings_from_manifold E w)) = (''vec2[]'', cusp_info E (manifold w))"
  unfolding pull_fillings_from_manifold_def fillings_from_manifold_def Let_def prod.case
  by (intro then_do_fillings)
     (simp_all add: update_filling_sliders_frame call_manifold_frame update_volume_label_frame logc_def)

lemma push_manifold:
  assumes "\<And>fs m m'. dehn_fill E fs m = Inr m' \<Longrightarrow> cusp_info E m' = fs"
    and "\<And>m m'. recompute_raytracing_data_and_redraw E m = Inr m' \<Longrightarrow> cusp_info E m' = cusp_info E m"
    and "\<And>cb m m'. fillings_changed_callback w = Some cb \<Longrightarrow> cb m = Inr m' \<Longrightarrow>
           cusp_info E m' = cusp_info E m"
    and "fst (push_fillings_to_manifold E w) = None"
  shows "cusp_info E (manifold (snd (push_fillings_to_manifold E w))) = snd (fillings w)"
proof -
  from assms(4) obtain m1 where m1: "dehn_fill E (snd (fillings w)) (manifold w) = Inr m1"
    by (cases "dehn_fill E (snd (fillings w)) (manifold w)") (auto simp: orchestrator_defs)
  from assms(4) m1 obtain m2 where m2: "recompute_raytracing_data_and_redraw E m1 = Inr m2"
    by (cases "recompute_raytracing_data_and_redraw E m1") (auto simp: orchestrator_defs)
  have c1: "cusp_info E m2 = snd (fillings w)"
    using assms(1) [OF m1] assms(2) [OF m2] by simp
  show ?thesis
  proof (cases "fillings_changed_callback w")
    case None
    with m1 m2 c1 show ?thesis
      by (auto simp: orchestrator_defs split: sum.splits option.splits exn.splits)
  next
    case (Some cb)
    from assms(4) m1 m2 Some obtain m3 where m3: "cb m2 = Inr m3"
      by (cases "cb m2") (auto simp: orchestrator_defs split: sum.splits option.splits exn.splits)
    from assms(3) [OF Some m3] c1 have "cusp_info E m3 = snd (fillings w)" by simp
    with m1 m2 m3 Some c1 assms(4) show ?thesis
      by (auto simp: orchestrator_defs split: sum.splits option.splits exn.splits)
  qed
qed

lemma length_sliders: "length (concat (map (\<lambda>i. [f i, h i]) [0..<n])) = 2 * n"
  by (induction n) simp_all

lemma nth_sliders:
  assumes "i < n"
  shows "concat (map (\<lambda>i. [f i, h i]) [0..<n]) ! (2 * i) = f i \<and>
         concat (map (\<lambda>i. [f i, h i]) [0..<n]) ! (2 * i + 1) = h i"
  using assms
proof (induction n)
  case 0
  then show ?case by simp
next
  case (Suc n)
  show ?case
  proof (cases "i < n")
    case True
    then have "2 * i < 2 * n" "2 * i + 1 < 2 * n" by linarith+
    with True Suc.IH show ?thesis by (simp add: nth_append length_sliders)
  next
    case False
    with Suc.prems have "i = n" by simp
    then show ?thesis by (simp add: nth_append length_sliders)
  qed
qed

lemma nth_create_fillings_frame:
  assumes "i < num_cusps E (manifold w)"
  shows "filling_controllers (create_fillings_frame E w) ! (2 * i) = filling_slider i 0 \<and>
         filling_controllers (create_fillings_frame E w) ! (2 * i + 1) = filling_slider i 1"
  using nth_sliders [OF assms, of "\<lambda>i. filling_slider i 0" "\<lambda>i. filling_slider i 1"]
  by (simp add: create_fillings_frame_def)

lemma scale_command_fillings:
  assumes "filling_controllers w ! k = filling_slider i j" and "i < length (snd (fillings w))"
    and "j < 2"
  shows "get_value (snd (fillings (snd (scale_command E k v w)))) (filling_slider i j) =
           Inr (clamp (- 15) 15 v)"
proof -
  from assms(3) have j: "j = 0 \<or> j = 1" by auto
  obtain fs where fs: "set_value (filling_slider i j) v (snd (fillings w)) = Inr fs"
    and g: "get_value fs (filling_slider i j) = Inr (clamp (- 15) 15 v)"
    using j assms(2) by (auto simp add: set_value_def get_value_def filling_slider_def Let_def)
  show ?thesis
    using assms(1) fs g
    by (simp add: scale_command_def Let_def push_frame filling_slider_def)
qed

section \<open>The filling edit\<close>

text \<open>
  C4. \<^verbatim>\<open>push_fillings_to_manifold\<close> calls, in this order, \<^verbatim>\<open>dehn_fill\<close> with the fillings of
  the widget, \<^verbatim>\<open>recompute_raytracing_data_and_redraw\<close>, \<^verbatim>\<open>volume\<close> and \<^verbatim>\<open>solution_type\<close> (the
  refresh of the label) and last, only if a callback is registered, the callback, once. Whatever
  is raised on the way, the calls made are an initial part of this list; when nothing is
  raised they are the whole list.
\<close>

theorem push_fillings_to_manifold_calls:
  "(\<exists>cs. trace (snd (push_fillings_to_manifold E w)) = trace w @ cs \<and>
         prefix cs ([Call_dehn_fill (snd (fillings w)), Call_recompute_raytracing_data_and_redraw,
                     Call_volume, Call_solution_type] @
                    (case fillings_changed_callback w of
                       None \<Rightarrow> [] | Some cb \<Rightarrow> [Call_fillings_changed_callback]))) \<and>
   (fst (push_fillings_to_manifold E w) = None \<longrightarrow>
      trace (snd (push_fillings_to_manifold E w)) =
        trace w @ [Call_dehn_fill (snd (fillings w)), Call_recompute_raytracing_data_and_redraw,
                   Call_volume, Call_solution_type] @
                  (case fillings_changed_callback w of
                     None \<Rightarrow> [] | Some cb \<Rightarrow> [Call_fillings_changed_callback]))"
  by (auto simp add: orchestrator_defs split: sum.splits option.splits exn.splits)

theorem push_fillings_to_manifold_calls_witness:
  "fst (push_fillings_to_manifold plain_engine plain_widget) = None \<and>
   trace (snd (push_fillings_to_manifold plain_engine plain_widget)) =
     [Call_dehn_fill [(1.4, 2.5)], Call_recompute_raytracing_data_and_redraw,
      Call_volume, Call_solution_type, Call_fillings_changed_callback] \<and>
   fst (push_fillings_to_manifold plain_engine
          (plain_widget\<lparr>fillings_changed_callback := None\<rparr>)) = None \<and>
   trace (snd (push_fillings_to_manifold plain_engine
          (plain_widget\<lparr>fillings_changed_callback := None\<rparr>))) =
     [Call_dehn_fill [(1.4, 2.5)], Call_recompute_raytracing_data_and_redraw,
      Call_volume, Call_solution_type]"
proof -
  have a: "fst (push_fillings_to_manifold plain_engine plain_widget) = None"
    by (simp add: orchestrator_defs engine_defs py_getitem_def solution_type_text_def)
  have b: "fst (push_fillings_to_manifold plain_engine
                  (plain_widget\<lparr>fillings_changed_callback := None\<rparr>)) = None"
    by (simp add: orchestrator_defs engine_defs py_getitem_def solution_type_text_def)
  show ?thesis
    using push_fillings_to_manifold_calls [of plain_engine plain_widget] a
          push_fillings_to_manifold_calls
            [of plain_engine "plain_widget\<lparr>fillings_changed_callback := None\<rparr>"] b
    by (simp add: engine_defs)
qed

section \<open>Rounding the fillings\<close>

text \<open>
  C3, as stated, at a concrete widget: \<^verbatim>\<open>round_fillings\<close> ends normally and never asks the
  engine to recompute the hyperbolic structure: \<^verbatim>\<open>init_hyperbolic_structure\<close> is not among
  its calls; what it calls after the sliders is \<^verbatim>\<open>dehn_fill\<close> and the rest of the filling
  edit.
\<close>

theorem round_fillings_counterexample:
  "fst (round_fillings plain_engine plain_widget) = None \<and>
   trace (snd (round_fillings plain_engine plain_widget)) =
     [Call_controller_update 0, Call_controller_update 1, Call_dehn_fill [(1, 2)],
      Call_recompute_raytracing_data_and_redraw, Call_volume, Call_solution_type,
      Call_fillings_changed_callback] \<and>
   Call_init_hyperbolic_structure True
     \<notin> set (trace (snd (round_fillings plain_engine plain_widget)))"
  by (simp add: round_fillings_def update_filling_sliders_def controller_update_def get_value_def
        round_pair_def py_round_def orchestrator_defs engine_defs py_getitem_def
        solution_type_text_def)

text \<open>
  C3, amended. \<^verbatim>\<open>round_fillings\<close> replaces every component of every filling by its nearest
  integer (a tie goes to the even one), refreshes the filling sliders and then runs the filling
  edit: \<^verbatim>\<open>dehn_fill\<close> with the rounded fillings, never \<^verbatim>\<open>init_hyperbolic_structure\<close>. After
  its \<^verbatim>\<open>dehn_fill\<close> it makes the calls that \<^verbatim>\<open>recompute_hyperbolic_structure\<close> makes after its
  \<^verbatim>\<open>init_hyperbolic_structure(force_recompute = True)\<close>: rebuild and redraw, the refresh of the
  volume label, and the notification if one is registered.
\<close>

theorem round_fillings_calls:
  "fillings (snd (round_fillings E w)) = (fst (fillings w), map round_pair (snd (fillings w))) \<and>
   (\<forall>f \<in> set (snd (fillings w)).
      round_pair f = (of_int (py_round (fst f)), of_int (py_round (snd f))) \<and>
      \<bar>fst (round_pair f) - fst f\<bar> \<le> 1 / 2 \<and> \<bar>snd (round_pair f) - snd f\<bar> \<le> 1 / 2) \<and>
   (\<exists>cs. trace (snd (round_fillings E w)) = trace w @ cs \<and>
         prefix cs (map Call_controller_update [0..<length (filling_controllers w)] @
                    [Call_dehn_fill (map round_pair (snd (fillings w)))] @
                    [Call_recompute_raytracing_data_and_redraw, Call_volume, Call_solution_type] @
                    (case fillings_changed_callback w of
                       None \<Rightarrow> [] | Some cb \<Rightarrow> [Call_fillings_changed_callback])) \<and>
         (\<forall>b. Call_init_hyperbolic_structure b \<notin> set cs)) \<and>
   (fst (round_fillings E w) = None \<longrightarrow>
      trace (snd (round_fillings E w)) =
        trace w @ map Call_controller_update [0..<length (filling_controllers w)] @
        [Call_dehn_fill (map round_pair (snd (fillings w)))] @
        [Call_recompute_raytracing_data_and_redraw, Call_volume, Call_solution_type] @
        (case fillings_changed_callback w of
           None \<Rightarrow> [] | Some cb \<Rightarrow> [Call_fillings_changed_callback])) \<and>
   (fst (recompute_hyperbolic_structure E w) = None \<longrightarrow>
      trace (snd (recompute_hyperbolic_structure E w)) =
        trace w @ [Call_init_hyperbolic_structure True] @
        [Call_recompute_raytracing_data_and_redraw, Call_volume, Call_solution_type] @
        (case fillings_changed_callback w of
           None \<Rightarrow> [] | Some cb \<Rightarrow> [Call_fillings_changed_callback]))"
proof (intro conjI)
  show "fillings (snd (round_fillings E w)) =
          (fst (fillings w), map round_pair (snd (fillings w)))"
    by (rule round_fillings_frame)
  show "\<forall>f \<in> set (snd (fillings w)).
      round_pair f = (of_int (py_round (fst f)), of_int (py_round (snd f))) \<and>
      \<bar>fst (round_pair f) - fst f\<bar> \<le> 1 / 2 \<and> \<bar>snd (round_pair f) - snd f\<bar> \<le> 1 / 2"
    using py_round_near by (simp add: round_pair_def)
  let ?full = "map Call_controller_update [0..<length (filling_controllers w)] @
                    [Call_dehn_fill (map round_pair (snd (fillings w)))] @
                    [Call_recompute_raytracing_data_and_redraw, Call_volume, Call_solution_type] @
                    (case fillings_changed_callback w of
                       None \<Rightarrow> [] | Some cb \<Rightarrow> [Call_fillings_changed_callback])"
  from performs_round [of w E]
  obtain cs where cs: "trace (snd (round_fillings E w)) = trace w @ cs" "prefix cs ?full"
    "fst (round_fillings E w) = None \<longrightarrow> cs = ?full"
    by (auto simp: performs_def)
  have "\<forall>b. Call_init_hyperbolic_structure b \<notin> set ?full"
    by (auto split: option.splits)
  with set_mono_prefix [OF cs(2)] have "\<forall>b. Call_init_hyperbolic_structure b \<notin> set cs"
    by blast
  with cs show "\<exists>cs. trace (snd (round_fillings E w)) = trace w @ cs \<and> prefix cs ?full \<and>
         (\<forall>b. Call_init_hyperbolic_structure b \<notin> set cs)"
    by blast
  from cs show "fst (round_fillings E w) = None \<longrightarrow>
      trace (snd (round_fillings E w)) = trace w @ ?full"
    by simp
  from performs_recompute [of w E]
  show "fst (recompute_hyperbolic_structure E w) = None \<longrightarrow>
      trace (snd (recompute_hyperbolic_structure E w)) =
        trace w @ [Call_init_hyperbolic_structure True] @
        [Call_recompute_raytracing_data_and_redraw, Call_volume, Call_solution_type] @
        (case fillings_changed_callback w of
           None \<Rightarrow> [] | Some cb \<Rightarrow> [Call_fillings_changed_callback])"
    by (auto simp: performs_def)
qed

theorem round_fillings_calls_witness:
  "fst (round_fillings plain_engine plain_widget) = None \<and>
   fst (recompute_hyperbolic_structure plain_engine plain_widget) = None \<and>
   fillings (snd (round_fillings plain_engine plain_widget)) = (''vec2[]'', [(1, 2)]) \<and>
   trace (snd (round_fillings plain_engine plain_widget)) =
     [Call_controller_update 0, Call_controller_update 1, Call_dehn_fill [(1, 2)]] @
     [Call_recompute_raytracing_data_and_redraw, Call_volume, Call_solution_type,
      Call_fillings_changed_callback] \<and>
   trace (snd (recompute_hyperbolic_structure plain_engine plain_widget)) =
     [Call_init_hyperbolic_structure True] @
     [Call_recompute_raytracing_data_and_redraw, Call_volume, Call_solution_type,
      Call_fillings_changed_callback]"
proof -
  have a: "fst (round_fillings plain_engine plain_widget) = None"
    by (simp add: round_fillings_def update_filling_sliders_def controller_update_def
          get_value_def round_pair_def py_round_def orchestrator_defs engine_defs py_getitem_def
          solution_type_text_def)
  have b: "fst (recompute_hyperbolic_structure plain_engine plain_widget) = None"
    by (simp add: orchestrator_defs engine_defs py_getitem_def solution_type_text_def)
  have c: "map round_pair (snd (fillings plain_widget)) = [(1, 2)]"
    by (simp add: round_pair_def py_round_def engine_defs)
  show ?thesis
    using round_fillings_calls [of plain_engine plain_widget] a b c
    by (simp add: engine_defs)
qed

section \<open>Pulling the fillings\<close>

text \<open>
  C7. \<^verbatim>\<open>pull_fillings_from_manifold\<close> calls \<^verbatim>\<open>cusp_info\<close>, the \<^verbatim>\<open>update()\<close> of every filling
  controller, \<^verbatim>\<open>recompute_raytracing_data_and_redraw\<close>, \<^verbatim>\<open>volume\<close> and \<^verbatim>\<open>solution_type\<close>, or an
  initial part of these when something is raised. The notification is not among its calls, nor
  is \<^verbatim>\<open>dehn_fill\<close>, the first call of the sliders' update function
  \<^verbatim>\<open>push_fillings_to_manifold\<close>; the fillings it leaves are those read from the manifold. An
  \<^verbatim>\<open>update()\<close> of a controller is one call that changes neither the fillings nor the manifold.
\<close>

theorem pull_fillings_from_manifold_calls:
  "(\<exists>cs. trace (snd (pull_fillings_from_manifold E w)) = trace w @ cs \<and>
         prefix cs (Call_cusp_info # map Call_controller_update [0..<length (filling_controllers w)] @
                    [Call_recompute_raytracing_data_and_redraw, Call_volume, Call_solution_type]) \<and>
         Call_fillings_changed_callback \<notin> set cs \<and>
         (\<forall>fs. Call_dehn_fill fs \<notin> set cs)) \<and>
   fillings (snd (pull_fillings_from_manifold E w)) = (''vec2[]'', cusp_info E (manifold w)) \<and>
   trace (snd (controller_update k w)) = trace w @ [Call_controller_update k] \<and>
   fillings (snd (controller_update k w)) = fillings w \<and>
   manifold (snd (controller_update k w)) = manifold w"
proof (intro conjI)
  let ?full = "Call_cusp_info # map Call_controller_update [0..<length (filling_controllers w)] @
                    [Call_recompute_raytracing_data_and_redraw, Call_volume, Call_solution_type]"
  from performs_pull [of w E]
  obtain cs where cs: "trace (snd (pull_fillings_from_manifold E w)) = trace w @ cs"
    "prefix cs ?full"
    by (auto simp: performs_def)
  have "Call_fillings_changed_callback \<notin> set ?full \<and> (\<forall>fs. Call_dehn_fill fs \<notin> set ?full)"
    by auto
  with set_mono_prefix [OF cs(2)]
  have "Call_fillings_changed_callback \<notin> set cs \<and> (\<forall>fs. Call_dehn_fill fs \<notin> set cs)"
    by blast
  with cs show "\<exists>cs. trace (snd (pull_fillings_from_manifold E w)) = trace w @ cs \<and>
         prefix cs ?full \<and> Call_fillings_changed_callback \<notin> set cs \<and>
         (\<forall>fs. Call_dehn_fill fs \<notin> set cs)"
    by blast
  show "fillings (snd (pull_fillings_from_manifold E w)) = (''vec2[]'', cusp_info E (manifold w))"
    by (rule pull_fillings_frame)
  show "trace (snd (controller_update k w)) = trace w @ [Call_controller_update k]"
    by (simp add: controller_update_def logc_def Let_def split: sum.splits)
  show "fillings (snd (controller_update k w)) = fillings w"
    by (simp add: controller_update_frame)
  show "manifold (snd (controller_update k w)) = manifold w"
    by (simp add: controller_update_frame)
qed

text \<open>
  C5. When \<^verbatim>\<open>dehn_fill\<close> stores the fillings it is given so that \<^verbatim>\<open>cusp_info\<close> returns them,
  and neither the redraw nor the notification changes what \<^verbatim>\<open>cusp_info\<close> returns, then after
  a \<^verbatim>\<open>push_fillings_to_manifold\<close> that raised nothing both \<^verbatim>\<open>_fillings_from_manifold\<close> and
  \<^verbatim>\<open>pull_fillings_from_manifold\<close> give back the pairs that were pushed, unchanged.
\<close>

theorem push_then_pull_fillings:
  assumes "\<And>fs m m'. dehn_fill E fs m = Inr m' \<Longrightarrow> cusp_info E m' = fs"
    and "\<And>m m'. recompute_raytracing_data_and_redraw E m = Inr m' \<Longrightarrow>
           cusp_info E m' = cusp_info E m"
    and "\<And>cb m m'. fillings_changed_callback w = Some cb \<Longrightarrow> cb m = Inr m' \<Longrightarrow>
           cusp_info E m' = cusp_info E m"
    and "fst (push_fillings_to_manifold E w) = None"
  shows "snd (fst (fillings_from_manifold E (snd (push_fillings_to_manifold E w)))) =
           snd (fillings w) \<and>
         snd (fillings (snd (pull_fillings_from_manifold E
                (snd (push_fillings_to_manifold E w))))) = snd (fillings w)"
  using push_manifold [of E w, OF assms]
  by (simp add: pull_fillings_frame fillings_from_manifold_def)

theorem push_then_pull_fillings_witness:
  "fst (push_fillings_to_manifold plain_engine two_cusp_widget) = None \<and>
   snd (fst (fillings_from_manifold plain_engine
          (snd (push_fillings_to_manifold plain_engine two_cusp_widget)))) = [(1, 2), (3, 4)] \<and>
   snd (fillings (snd (pull_fillings_from_manifold plain_engine
          (snd (push_fillings_to_manifold plain_engine two_cusp_widget))))) = [(1, 2), (3, 4)]"
proof -
  have a: "\<And>fs m m'. dehn_fill plain_engine fs m = Inr m' \<Longrightarrow> cusp_info plain_engine m' = fs"
    by (simp add: plain_engine_def split: if_splits)
  have b: "\<And>m m'. recompute_raytracing_data_and_redraw plain_engine m = Inr m' \<Longrightarrow>
           cusp_info plain_engine m' = cusp_info plain_engine m"
    by (simp add: plain_engine_def)
  have c: "\<And>cb m m'. fillings_changed_callback two_cusp_widget = Some cb \<Longrightarrow> cb m = Inr m' \<Longrightarrow>
           cusp_info plain_engine m' = cusp_info plain_engine m"
    by (auto simp add: two_cusp_widget_def)
  have d: "fst (push_fillings_to_manifold plain_engine two_cusp_widget) = None"
    by (simp add: orchestrator_defs engine_defs two_cusp_widget_def py_getitem_def
          solution_type_text_def)
  show ?thesis
    using push_then_pull_fillings [of plain_engine two_cusp_widget, OF a b c d] d
    by (simp add: two_cusp_widget_def)
qed

section \<open>Editing a filling slider\<close>

text \<open>
  C8. \<^verbatim>\<open>create_fillings_frame\<close> makes two sliders for every cusp. The slider for component
  \<open>j\<close> of cusp \<open>i\<close> has the range from \<open>-15\<close> to \<open>15\<close>; an edit of it raises nothing in the
  write and stores the value clamped to this range: \<open>15\<close> for an edit to \<open>20\<close> and \<open>-15\<close> for
  an edit to \<open>-20\<close>.
\<close>

theorem filling_slider_clamps:
  assumes "i < num_cusps E (manifold w)"
    and "length (snd (fillings w)) = num_cusps E (manifold w)"
    and "j < 2"
  shows "length (filling_controllers (create_fillings_frame E w)) = 2 * num_cusps E (manifold w) \<and>
         filling_controllers (create_fillings_frame E w) ! (2 * i + j) = filling_slider i j \<and>
         range_from (filling_slider i j) = - 15 \<and> range_to (filling_slider i j) = 15 \<and>
         update_function (filling_slider i j) = Some Push_fillings_to_manifold \<and>
         (\<forall>v. \<exists>fs. set_value (filling_slider i j) v (snd (fillings w)) = Inr fs) \<and>
         get_value (snd (fillings (snd (scale_command E (2 * i + j) 20
                      (create_fillings_frame E w))))) (filling_slider i j) = Inr 15 \<and>
         get_value (snd (fillings (snd (scale_command E (2 * i + j) (- 20)
                      (create_fillings_frame E w))))) (filling_slider i j) = Inr (- 15) \<and>
         (\<forall>v. get_value (snd (fillings (snd (scale_command E (2 * i + j) v
                      (create_fillings_frame E w))))) (filling_slider i j) =
               Inr (max (- 15) (min 15 v)))"
proof -
  from assms(3) have j: "j = 0 \<or> j = 1" by auto
  with nth_create_fillings_frame [OF assms(1)]
  have c: "filling_controllers (create_fillings_frame E w) ! (2 * i + j) = filling_slider i j"
    by auto
  have l: "i < length (snd (fillings (create_fillings_frame E w)))"
    using assms(1,2) by (simp add: create_fillings_frame_def)
  have n: "length (filling_controllers (create_fillings_frame E w)) =
           2 * num_cusps E (manifold w)"
    by (simp add: create_fillings_frame_def length_sliders)
  have r: "\<forall>v. \<exists>fs. set_value (filling_slider i j) v (snd (fillings w)) = Inr fs"
    using j assms(1,2) by (auto simp add: set_value_def filling_slider_def Let_def)
  note s = scale_command_fillings [OF c l assms(3), of E]
  show ?thesis
    using c n r s [of 20] s [of "- 20"] s by (simp add: clamp_def filling_slider_def)
qed

theorem filling_slider_clamps_witness:
  "length (filling_controllers (create_fillings_frame plain_engine two_cusp_widget)) = 4 \<and>
   filling_controllers (create_fillings_frame plain_engine two_cusp_widget) ! 2 =
     filling_slider 1 0 \<and>
   get_value (snd (fillings (snd (scale_command plain_engine 2 20
                (create_fillings_frame plain_engine two_cusp_widget))))) (filling_slider 1 0) =
     Inr 15 \<and>
   get_value (snd (fillings (snd (scale_command plain_engine 2 (- 20)
                (create_fillings_frame plain_engine two_cusp_widget))))) (filling_slider 1 0) =
     Inr (- 15)"
proof -
  have a: "1 < num_cusps plain_engine (manifold two_cusp_widget)"
    by (simp add: plain_engine_def two_cusp_widget_def)
  have b: "length (snd (fillings two_cusp_widget)) = num_cusps plain_engine (manifold two_cusp_widget)"
    by (simp add: plain_engine_def two_cusp_widget_def)
  have c: "(0::nat) < 2" by simp
  have d: "num_cusps plain_engine (manifold two_cusp_widget) = 2"
    by (simp add: plain_engine_def two_cusp_widget_def)
  show ?thesis
    using filling_slider_clamps [OF a b c] d by simp
qed

section \<open>The bound of the cusp area sliders\<close>

lemma diagonal_in_range:
  assumes "\<forall>i \<in> set js. i < length m \<and> i < length (m ! i)"
  shows "diagonal m js = Inr (map (\<lambda>i. m ! i ! i) js)"
  using assms by (induction js) simp_all

lemma py_max_Max:
  assumes "xs \<noteq> []"
  shows "py_max xs = Inr (Max (set xs))"
  using assms by (cases xs) (simp_all add: py_max_def Max.set_eq_fold [symmetric])

lemma maximal_cusp_area_success:
  assumes "has_cusp_area_matrix E (h ! mfd)"
    and "copy E (h ! mfd) = Inr c"
    and "dehn_fill E (replicate (num_cusps E c) (0, 0)) c = Inr c1"
    and "init_hyperbolic_structure E True c1 = Inr c2"
    and "cusp_area_matrix E ''trigDependent'' c2 = Inr m"
    and "0 < num_cusps E c2"
    and "\<forall>i < num_cusps E c2. i < length m \<and> i < length (m ! i)"
    and "0 \<le> Max ((\<lambda>i. m ! i ! i) ` {..<num_cusps E c2})"
  shows "maximal_cusp_area E h mfd =
           (sqrt (Max ((\<lambda>i. m ! i ! i) ` {..<num_cusps E c2})), h @ [c2])"
proof -
  let ?n = "num_cusps E c2"
  have d: "diagonal m [0..<?n] = Inr (map (\<lambda>i. m ! i ! i) [0..<?n])"
    using assms(7) by (intro diagonal_in_range) simp
  have "map (\<lambda>i. m ! i ! i) [0..<?n] \<noteq> []"
    using assms(6) by simp
  then have "py_max (map (\<lambda>i. m ! i ! i) [0..<?n]) =
             Inr (Max (set (map (\<lambda>i. m ! i ! i) [0..<?n])))"
    by (rule py_max_Max)
  then have p: "py_max (map (\<lambda>i. m ! i ! i) [0..<?n]) =
             Inr (Max ((\<lambda>i. m ! i ! i) ` {..<?n}))"
    by (simp add: atLeast0LessThan)
  have s: "math_sqrt (Max ((\<lambda>i. m ! i ! i) ` {..<?n})) =
             Inr (sqrt (Max ((\<lambda>i. m ! i ! i) ` {..<?n})))"
    using assms(8) by (simp add: math_sqrt_def)
  show ?thesis
    using assms(1-5) d p s by (simp add: maximal_cusp_area_def Let_def)
qed

text \<open>
  C6, as stated, at an engine whose \<^verbatim>\<open>cusp_area_matrix\<close> raises: \<^verbatim>\<open>_maximal_cusp_area\<close>
  returns \<open>5.0\<close>, and the bound of the slider, which has the factor \<open>1.05\<close>, is \<open>5.25\<close>, not
  \<open>5.0\<close>.
\<close>

theorem cusp_area_maximum_counterexample:
  "cusp_area_matrix no_area_engine ''trigDependent'' [(0, 0)] = Inl OtherException \<and>
   fst (maximal_cusp_area no_area_engine [[(0, 0)]] 0) = 5 \<and>
   cusp_area_maximum no_area_engine [[(0, 0)]] 0 = 5.25 \<and>
   cusp_area_maximum no_area_engine [[(0, 0)]] 0 \<noteq> 5"
  by (simp add: cusp_area_maximum_def maximal_cusp_area_def Let_def engine_defs)

text \<open>
  C6, amended. The bound of the cusp area sliders is \<open>1.05\<close> times what \<^verbatim>\<open>_maximal_cusp_area\<close>
  returns. \<^verbatim>\<open>_maximal_cusp_area\<close> returns the square root of the largest diagonal entry of
  \<^verbatim>\<open>cusp_area_matrix(method = 'trigDependent')\<close> of a copy of the manifold with every cusp
  unfilled and the hyperbolic structure recomputed; it returns exactly \<open>5.0\<close> when the manifold
  has no \<^verbatim>\<open>cusp_area_matrix\<close> and when \<^verbatim>\<open>copy\<close>, \<^verbatim>\<open>dehn_fill\<close>, \<^verbatim>\<open>init_hyperbolic_structure\<close>
  or \<^verbatim>\<open>cusp_area_matrix\<close> raises, and then the bound is \<open>5.25\<close>.
\<close>

theorem cusp_area_maximum_value:
  "cusp_area_maximum E h mfd = 1.05 * fst (maximal_cusp_area E h mfd) \<and>
   (\<not> has_cusp_area_matrix E (h ! mfd) \<longrightarrow> fst (maximal_cusp_area E h mfd) = 5) \<and>
   (has_cusp_area_matrix E (h ! mfd) \<and>
    (copy E (h ! mfd) = Inl e \<or>
     copy E (h ! mfd) = Inr c \<and>
       dehn_fill E (replicate (num_cusps E c) (0, 0)) c = Inl e \<or>
     copy E (h ! mfd) = Inr c \<and>
       dehn_fill E (replicate (num_cusps E c) (0, 0)) c = Inr c1 \<and>
       init_hyperbolic_structure E True c1 = Inl e \<or>
     copy E (h ! mfd) = Inr c \<and>
       dehn_fill E (replicate (num_cusps E c) (0, 0)) c = Inr c1 \<and>
       init_hyperbolic_structure E True c1 = Inr c2 \<and>
       cusp_area_matrix E ''trigDependent'' c2 = Inl e) \<longrightarrow>
      fst (maximal_cusp_area E h mfd) = 5 \<and> cusp_area_maximum E h mfd = 5.25) \<and>
   (has_cusp_area_matrix E (h ! mfd) \<and>
    copy E (h ! mfd) = Inr c \<and>
    dehn_fill E (replicate (num_cusps E c) (0, 0)) c = Inr c1 \<and>
    init_hyperbolic_structure E True c1 = Inr c2 \<and>
    cusp_area_matrix E ''trigDependent'' c2 = Inr m \<and>
    0 < num_cusps E c2 \<and>
    (\<forall>i < num_cusps E c2. i < length m \<and> i < length (m ! i)) \<and>
    0 \<le> Max ((\<lambda>i. m ! i ! i) ` {..<num_cusps E c2}) \<longrightarrow>
      fst (maximal_cusp_area E h mfd) = sqrt (Max ((\<lambda>i. m ! i ! i) ` {..<num_cusps E c2})) \<and>
      cusp_area_maximum E h mfd =
        1.05 * sqrt (Max ((\<lambda>i. m ! i ! i) ` {..<num_cusps E c2})))"
proof (intro conjI impI)
  show "cusp_area_maximum E h mfd = 1.05 * fst (maximal_cusp_area E h mfd)"
    by (simp add: cusp_area_maximum_def)
  show "fst (maximal_cusp_area E h mfd) = 5" if "\<not> has_cusp_area_matrix E (h ! mfd)"
    using that by (simp add: maximal_cusp_area_def)
  assume f: "has_cusp_area_matrix E (h ! mfd) \<and>
    (copy E (h ! mfd) = Inl e \<or>
     copy E (h ! mfd) = Inr c \<and>
       dehn_fill E (replicate (num_cusps E c) (0, 0)) c = Inl e \<or>
     copy E (h ! mfd) = Inr c \<and>
       dehn_fill E (replicate (num_cusps E c) (0, 0)) c = Inr c1 \<and>
       init_hyperbolic_structure E True c1 = Inl e \<or>
     copy E (h ! mfd) = Inr c \<and>
       dehn_fill E (replicate (num_cusps E c) (0, 0)) c = Inr c1 \<and>
       init_hyperbolic_structure E True c1 = Inr c2 \<and>
       cusp_area_matrix E ''trigDependent'' c2 = Inl e)"
  then show five: "fst (maximal_cusp_area E h mfd) = 5"
    by (auto simp add: maximal_cusp_area_def Let_def)
  then show "cusp_area_maximum E h mfd = 5.25"
    by (simp add: cusp_area_maximum_def)
next
  assume s: "has_cusp_area_matrix E (h ! mfd) \<and>
    copy E (h ! mfd) = Inr c \<and>
    dehn_fill E (replicate (num_cusps E c) (0, 0)) c = Inr c1 \<and>
    init_hyperbolic_structure E True c1 = Inr c2 \<and>
    cusp_area_matrix E ''trigDependent'' c2 = Inr m \<and>
    0 < num_cusps E c2 \<and>
    (\<forall>i < num_cusps E c2. i < length m \<and> i < length (m ! i)) \<and>
    0 \<le> Max ((\<lambda>i. m ! i ! i) ` {..<num_cusps E c2})"
  then have "maximal_cusp_area E h mfd =
           (sqrt (Max ((\<lambda>i. m ! i ! i) ` {..<num_cusps E c2})), h @ [c2])"
    using maximal_cusp_area_success [of E h mfd c c1 c2 m] by simp
  then show "fst (maximal_cusp_area E h mfd) =
               sqrt (Max ((\<lambda>i. m ! i ! i) ` {..<num_cusps E c2}))"
    and "cusp_area_maximum E h mfd =
        1.05 * sqrt (Max ((\<lambda>i. m ! i ! i) ` {..<num_cusps E c2}))"
    by (simp_all add: cusp_area_maximum_def)
qed

theorem cusp_area_maximum_value_witness:
  "fst (maximal_cusp_area plain_engine [[(1.4, 2.5)]] 0) = 2 \<and>
   cusp_area_maximum plain_engine [[(1.4, 2.5)]] 0 = 2.1 \<and>
   fst (maximal_cusp_area no_area_engine [[(1.4, 2.5)]] 0) = 5 \<and>
   cusp_area_maximum no_area_engine [[(1.4, 2.5)]] 0 = 5.25"
proof -
  have a: "has_cusp_area_matrix plain_engine ([[(1.4, 2.5)]] ! 0) \<and>
    copy plain_engine ([[(1.4, 2.5)]] ! 0) = Inr [(1.4, 2.5)] \<and>
    dehn_fill plain_engine (replicate (num_cusps plain_engine [(1.4, 2.5)]) (0, 0)) [(1.4, 2.5)] =
      Inr [(0, 0)] \<and>
    init_hyperbolic_structure plain_engine True [(0, 0)] = Inr [(0, 0)] \<and>
    cusp_area_matrix plain_engine ''trigDependent'' [(0, 0)] = Inr [[4]] \<and>
    0 < num_cusps plain_engine [(0, 0)] \<and>
    (\<forall>i < num_cusps plain_engine [(0, 0)]. i < length [[4::real]] \<and> i < length ([[4::real]] ! i)) \<and>
    0 \<le> Max ((\<lambda>i. [[4::real]] ! i ! i) ` {..<num_cusps plain_engine [(0, 0)]})"
    by (simp add: plain_engine_def lessThan_Suc)
  have b: "has_cusp_area_matrix no_area_engine ([[(1.4, 2.5)]] ! 0) \<and>
    copy no_area_engine ([[(1.4, 2.5)]] ! 0) = Inr [(1.4, 2.5)] \<and>
    dehn_fill no_area_engine (replicate (num_cusps no_area_engine [(1.4, 2.5)]) (0, 0))
      [(1.4, 2.5)] = Inr [(0, 0)] \<and>
    init_hyperbolic_structure no_area_engine True [(0, 0)] = Inr [(0, 0)] \<and>
    cusp_area_matrix no_area_engine ''trigDependent'' [(0, 0)] = Inl OtherException"
    by (simp add: engine_defs)
  have m: "Max ((\<lambda>i. [[4::real]] ! i ! i) ` {..<num_cusps plain_engine [(0, 0)]}) = 4"
    by (simp add: plain_engine_def lessThan_Suc)
  show ?thesis
    using cusp_area_maximum_value
            [of plain_engine "[[(1.4, 2.5)]]" 0 OtherException "[(1.4, 2.5)]" "[(0, 0)]"
                "[(0, 0)]" "[[4]]"] a m
          cusp_area_maximum_value
            [of no_area_engine "[[(1.4, 2.5)]]" 0 OtherException "[(1.4, 2.5)]" "[(0, 0)]"
                "[(0, 0)]" "[[4]]"] b
    by simp
qed

text \<open>
  C10. \<^verbatim>\<open>_maximal_cusp_area\<close> leaves every object that existed before the call as it was, the
  manifold it is given among them: the store afterwards is the old one, with at most the copy
  added, which is the one that was unfilled and recomputed. When the manifold has no
  \<^verbatim>\<open>cusp_area_matrix\<close>, \<open>5.0\<close> is returned and the store is the same.
\<close>

theorem maximal_cusp_area_keeps_manifold:
  assumes "mfd < length h"
  shows "take (length h) (snd (maximal_cusp_area E h mfd)) = h \<and>
         snd (maximal_cusp_area E h mfd) ! mfd = h ! mfd \<and>
         (\<not> has_cusp_area_matrix E (h ! mfd) \<longrightarrow> maximal_cusp_area E h mfd = (5, h)) \<and>
         (has_cusp_area_matrix E (h ! mfd) \<and> copy E (h ! mfd) = Inr c \<and>
          dehn_fill E (replicate (num_cusps E c) (0, 0)) c = Inr c1 \<and>
          init_hyperbolic_structure E True c1 = Inr c2 \<longrightarrow>
            snd (maximal_cusp_area E h mfd) = h @ [c2])"
proof (intro conjI impI)
  show t: "take (length h) (snd (maximal_cusp_area E h mfd)) = h"
    by (simp add: maximal_cusp_area_def Let_def split: sum.splits)
  have "snd (maximal_cusp_area E h mfd) ! mfd =
        take (length h) (snd (maximal_cusp_area E h mfd)) ! mfd"
    using assms by simp
  with t show "snd (maximal_cusp_area E h mfd) ! mfd = h ! mfd"
    by simp
  show "maximal_cusp_area E h mfd = (5, h)" if "\<not> has_cusp_area_matrix E (h ! mfd)"
    using that by (simp add: maximal_cusp_area_def)
  show "snd (maximal_cusp_area E h mfd) = h @ [c2]"
    if "has_cusp_area_matrix E (h ! mfd) \<and> copy E (h ! mfd) = Inr c \<and>
          dehn_fill E (replicate (num_cusps E c) (0, 0)) c = Inr c1 \<and>
          init_hyperbolic_structure E True c1 = Inr c2"
    using that by (simp add: maximal_cusp_area_def Let_def split: sum.splits)
qed

theorem maximal_cusp_area_keeps_manifold_witness:
  "snd (maximal_cusp_area plain_engine [[(1.4, 2.5)]] 0) = [[(1.4, 2.5)], [(0, 0)]] \<and>
   snd (maximal_cusp_area plain_engine [[(1.4, 2.5)]] 0) ! 0 = [(1.4, 2.5)] \<and>
   maximal_cusp_area (plain_engine\<lparr>has_cusp_area_matrix := (\<lambda>m. False)\<rparr>) [[(1.4, 2.5)]] 0 =
     (5, [[(1.4, 2.5)]])"
proof -
  have a: "(0::nat) < length [[(1.4::real, 2.5::real)]]" by simp
  have b: "has_cusp_area_matrix plain_engine ([[(1.4, 2.5)]] ! 0) \<and>
    copy plain_engine ([[(1.4, 2.5)]] ! 0) = Inr [(1.4, 2.5)] \<and>
    dehn_fill plain_engine (replicate (num_cusps plain_engine [(1.4, 2.5)]) (0, 0)) [(1.4, 2.5)] =
      Inr [(0, 0)] \<and>
    init_hyperbolic_structure plain_engine True [(0, 0)] = Inr [(0, 0)]"
    by (simp add: plain_engine_def)
  have c: "\<not> has_cusp_area_matrix (plain_engine\<lparr>has_cusp_area_matrix := (\<lambda>m. False)\<rparr>)
               ([[(1.4, 2.5)]] ! 0)"
    by simp
  show ?thesis
    using maximal_cusp_area_keeps_manifold
            [OF a, of plain_engine "[(1.4, 2.5)]" "[(0, 0)]" "[(0, 0)]"] b
          maximal_cusp_area_keeps_manifold
            [OF a, of "plain_engine\<lparr>has_cusp_area_matrix := (\<lambda>m. False)\<rparr>"] c
    by simp
qed

end
